theory Spec2Isabelle
  imports Complex_Main
begin

section \<open>Console output and the observable trace\<close>

text \<open>
  The program talks to its surroundings through \<^verbatim>\<open>print\<close>, \<^verbatim>\<open>os.system('clear')\<close>,
  \<^verbatim>\<open>time.sleep\<close> and the constructors and \<^verbatim>\<open>cleanup\<close> methods of its components.
  Every such effect is an event; a function of the model returns the events it caused, in
  order, next to its updated state.

  A printed line is a list of pieces. A Python float is a \<^typ>\<open>real\<close> here (the code only
  compares and subtracts floats), and a formatted number stays symbolic:
  \<open>Float2 x\<close> is \<^verbatim>\<open>f"{x:.2f}"\<close>, \<open>Float1 x\<close> is \<^verbatim>\<open>f"{x:.1f}"\<close>, \<open>Nat n\<close> and \<open>Bool b\<close> are
  \<^verbatim>\<open>str\<close> of an integer and of a boolean.
\<close>

datatype piece = Str string | Float1 real | Float2 real | Nat nat | Bool bool

type_synonym line = "piece list"

datatype component = Sensors | Alerts | Display

datatype event =
    Print line
  | Clear
  | Sleep real
  | Construct component
  | InitializeFlask
  | StartFlaskThread
  | Cleanup component
  | GpioCleanup

definition print_str :: "string \<Rightarrow> event" where
  "print_str s = Print [Str s]"

definition rule50 :: string where
  "rule50 = replicate 50 (CHR ''='')"

definition rule70 :: string where
  "rule70 = replicate 70 (CHR ''='')"

text \<open>Constants of \<^verbatim>\<open>config.py\<close>, which is not among the sources: taken as parameters.\<close>

record config =
  DISTANCE_THRESHOLD :: real
  MAIN_LOOP_DELAY :: real
  INTRUSION_MESSAGE :: string
  SAFE_MESSAGE :: string
  SYSTEM_STARTUP :: string
  SYSTEM_SHUTDOWN :: string

section \<open>display.py\<close>

subsection \<open>LCDDisplay\<close>

record lcd_display =
  enable_framebuffer :: bool
  current_message :: string
  last_update_time :: real
  display_update_interval :: real

text \<open>\<^verbatim>\<open>LCDDisplay.__init__\<close>\<close>

definition LCDDisplay :: "bool \<Rightarrow> lcd_display \<times> event list" where
  "LCDDisplay fb =
     (\<lparr>enable_framebuffer = fb, current_message = [], last_update_time = 0,
       display_update_interval = 1\<rparr>,
      [print_str ''[DISPLAY] LCD display module initialized''])"

definition clear_screen :: "event list" where
  "clear_screen = [Clear, print_str ''[DISPLAY] Screen cleared'']"

text \<open>
  The \<^verbatim>\<open>data\<close> dictionary of \<^verbatim>\<open>display_message\<close>, with the three keys the method reads:
  a field is \<open>None\<close> when the key is absent. The values have the types the docstring
  gives them, so no line of the method can raise and its \<^verbatim>\<open>except\<close> branch is never taken.
\<close>

record display_data =
  data_motion :: "bool option"
  data_distance :: "real option"
  data_timestamp :: "string option"

text \<open>\<^verbatim>\<open>if data:\<close> holds for a dictionary with at least one key.\<close>

definition truthy :: "display_data option \<Rightarrow> bool" where
  "truthy data =
     (case data of
        None \<Rightarrow> False
      | Some d \<Rightarrow> data_motion d \<noteq> None \<or> data_distance d \<noteq> None \<or> data_timestamp d \<noteq> None)"

definition motion_lines :: "display_data \<Rightarrow> event list" where
  "motion_lines d =
     (case data_motion d of
        None \<Rightarrow> []
      | Some m \<Rightarrow> [Print [Str ''Motion Detection: '', Str (if m then ''DETECTED'' else ''CLEAR'')]])"

definition distance_lines :: "display_data \<Rightarrow> event list" where
  "distance_lines d =
     (case data_distance d of
        None \<Rightarrow> []
      | Some distance \<Rightarrow>
          (if distance > 0 then [Print [Str ''Distance: '', Float2 distance, Str '' cm'']]
           else [print_str ''Distance: No valid reading'']))"

definition timestamp_lines :: "display_data \<Rightarrow> event list" where
  "timestamp_lines d =
     (case data_timestamp d of
        None \<Rightarrow> []
      | Some t \<Rightarrow> [Print [Str ''Time: '', Str t]])"

definition data_lines :: "display_data option \<Rightarrow> event list" where
  "data_lines data =
     (if truthy data then
        (case data of
           None \<Rightarrow> []
         | Some d \<Rightarrow> motion_lines d @ distance_lines d @ timestamp_lines d)
      else [])"

text \<open>
  \<^verbatim>\<open>LCDDisplay.display_message\<close>; \<open>current_time\<close> is what \<^verbatim>\<open>time.time()\<close> returns in
  this call.
\<close>

definition display_message ::
  "lcd_display \<Rightarrow> real \<Rightarrow> string \<Rightarrow> display_data option \<Rightarrow> lcd_display \<times> event list" where
  "display_message self current_time message data =
     (if current_time - last_update_time self \<ge> display_update_interval self then
        (self\<lparr>current_message := message, last_update_time := current_time\<rparr>,
         clear_screen
         @ [print_str rule50,
            print_str ''  INTRUSION DETECTION SYSTEM - RASPBERRY PI 4'',
            print_str rule50,
            Print [],
            Print [Str ''STATUS: '', Str message],
            Print []]
         @ data_lines data
         @ [Print [], print_str rule50])
      else (self, []))"

definition show_intrusion_alert ::
  "config \<Rightarrow> lcd_display \<Rightarrow> real \<Rightarrow> real \<Rightarrow> string \<Rightarrow> lcd_display \<times> event list" where
  "show_intrusion_alert cfg self current_time distance timestamp =
     display_message self current_time (INTRUSION_MESSAGE cfg)
       (Some \<lparr>data_motion = Some True, data_distance = Some distance,
              data_timestamp = Some timestamp\<rparr>)"

definition show_area_safe ::
  "config \<Rightarrow> lcd_display \<Rightarrow> real \<Rightarrow> real \<Rightarrow> string \<Rightarrow> lcd_display \<times> event list" where
  "show_area_safe cfg self current_time distance timestamp =
     display_message self current_time (SAFE_MESSAGE cfg)
       (Some \<lparr>data_motion = Some False, data_distance = Some distance,
              data_timestamp = Some timestamp\<rparr>)"

definition show_startup_message :: "config \<Rightarrow> event list" where
  "show_startup_message cfg =
     clear_screen
     @ [print_str rule50,
        print_str ''  INTRUSION DETECTION SYSTEM - RASPBERRY PI 4'',
        print_str rule50,
        Print [],
        Print [Str ''STATUS: '', Str (SYSTEM_STARTUP cfg)],
        Print [],
        print_str ''Initializing sensors and alert system...'',
        print_str ''Please wait...'',
        Print [],
        print_str rule50,
        Sleep 2]"

definition show_shutdown_message :: "config \<Rightarrow> event list" where
  "show_shutdown_message cfg =
     clear_screen
     @ [print_str rule50,
        print_str ''  INTRUSION DETECTION SYSTEM - RASPBERRY PI 4'',
        print_str rule50,
        Print [],
        Print [Str ''STATUS: '', Str (SYSTEM_SHUTDOWN cfg)],
        Print [],
        print_str ''Cleaning up resources and exiting...'',
        print_str ''Thank you for using this system'',
        Print [],
        print_str rule50]"

definition show_error_message :: "string \<Rightarrow> string \<Rightarrow> event list" where
  "show_error_message error_code error_description =
     clear_screen
     @ [print_str rule50,
        print_str ''  INTRUSION DETECTION SYSTEM - ERROR'',
        print_str rule50,
        Print [],
        Print [Str ''ERROR CODE: '', Str error_code],
        Print [Str ''DESCRIPTION: '', Str error_description],
        Print [],
        print_str ''System will shutdown. Please check connections.'',
        Print [],
        print_str rule50]"

definition lcd_cleanup :: "event list" where
  "lcd_cleanup = [print_str ''[DISPLAY] LCD display cleaned up'']"

subsection \<open>DisplayManager\<close>

record display_manager =
  lcd :: lcd_display
  display_count :: nat

text \<open>\<^verbatim>\<open>DisplayManager.__init__\<close>\<close>

definition DisplayManager :: "bool \<Rightarrow> display_manager \<times> event list" where
  "DisplayManager fb =
     (case LCDDisplay fb of
        (l, out) \<Rightarrow>
          (\<lparr>lcd = l, display_count = 0\<rparr>, out @ [print_str ''[DISPLAY] Display manager initialized'']))"

text \<open>
  \<^verbatim>\<open>DisplayManager.update_display\<close>; \<open>timestamp\<close> is what \<^verbatim>\<open>time.strftime\<close> returns in
  this call and \<open>current_time\<close> what \<^verbatim>\<open>time.time()\<close> returns inside \<^verbatim>\<open>display_message\<close>.
\<close>

definition update_display ::
  "config \<Rightarrow> display_manager \<Rightarrow> real \<Rightarrow> string \<Rightarrow> bool \<Rightarrow> bool \<Rightarrow> real
     \<Rightarrow> display_manager \<times> event list" where
  "update_display cfg self current_time timestamp intrusion_detected motion distance =
     (case (if intrusion_detected then show_intrusion_alert cfg (lcd self) current_time distance timestamp
            else show_area_safe cfg (lcd self) current_time distance timestamp) of
        (l, out) \<Rightarrow> (self\<lparr>lcd := l, display_count := display_count self + 1\<rparr>, out))"

definition show_startup :: "config \<Rightarrow> event list" where
  "show_startup cfg = show_startup_message cfg"

definition show_shutdown :: "config \<Rightarrow> event list" where
  "show_shutdown cfg = show_shutdown_message cfg"

definition show_error :: "string \<Rightarrow> string \<Rightarrow> event list" where
  "show_error error_code error_description = show_error_message error_code error_description"

definition display_manager_cleanup :: "event list" where
  "display_manager_cleanup = lcd_cleanup @ [print_str ''[DISPLAY] Display manager cleaned up'']"

section \<open>alerts.py\<close>

text \<open>
  \<^verbatim>\<open>alerts.py\<close> is not among the sources: \<^verbatim>\<open>main.py\<close> only calls
  \<^verbatim>\<open>AlertManager()\<close>, \<^verbatim>\<open>check_intrusion\<close>, \<^verbatim>\<open>update_status\<close> and \<^verbatim>\<open>cleanup\<close> on it.
  The definitions of this section follow the specification's sections 3, 4.1 and 4.2.
\<close>

datatype alert_state = SAFE | ALERT

datatype command = Activate | Reassert | Deactivate | NoCommand

record alert_manager =
  current_state :: alert_state
  output_active :: bool

text \<open>
  Modelled from the spec: the constructor of the absent \<^verbatim>\<open>AlertManager\<close>.
  "Initial state SAFE"; the alert output starts deactivated.
\<close>

definition AlertManager :: alert_manager where
  "AlertManager = \<lparr>current_state = SAFE, output_active = False\<rparr>"

text \<open>
  Modelled from the spec: validity of a distance, which the absent \<^verbatim>\<open>check_intrusion\<close>
  tests. "distance: float (cm, \<open>\<ge>\<close> 0 or sentinel invalid)"; \<^verbatim>\<open>main.py\<close> line 130 tests
  the same condition, \<^verbatim>\<open>distance >= 0\<close>, before it prints a distance.
\<close>

definition distance_valid :: "real \<Rightarrow> bool" where
  "distance_valid distance = (distance \<ge> 0)"

text \<open>
  Modelled from the spec: the absent \<^verbatim>\<open>AlertManager.check_intrusion\<close>.
  "verdict = motion AND (distance valid AND distance < threshold)".
\<close>

definition check_intrusion :: "bool \<Rightarrow> real \<Rightarrow> real \<Rightarrow> bool" where
  "check_intrusion motion_detected distance threshold =
     (motion_detected \<and> (distance_valid distance \<and> distance < threshold))"

text \<open>
  Modelled from the spec: the transition table of section 4.2,
  \<^verbatim>\<open>update(verdict) -> (newState, sideEffectCommand)\<close>, in the order of its four rows.
\<close>

fun update :: "alert_state \<Rightarrow> bool \<Rightarrow> alert_state \<times> command" where
  "update SAFE True = (ALERT, Activate)"
| "update ALERT True = (ALERT, Reassert)"
| "update ALERT False = (SAFE, Deactivate)"
| "update SAFE False = (SAFE, NoCommand)"

text \<open>
  Modelled from the spec: what a command does to the alert output (the capability
  \<^verbatim>\<open>setActive(bool)\<close>). The re-assert is issued again, which leaves an active output active.
\<close>

fun drive :: "command \<Rightarrow> bool \<Rightarrow> bool" where
  "drive Activate active = True"
| "drive Reassert active = True"
| "drive Deactivate active = False"
| "drive NoCommand active = active"

text \<open>
  Modelled from the spec: the absent \<^verbatim>\<open>AlertManager.update_status\<close>, which applies
  \<open>update\<close> to the state it holds and drives the output with the command. "update never
  fails".
\<close>

definition update_status :: "alert_manager \<Rightarrow> bool \<Rightarrow> alert_manager" where
  "update_status self verdict =
     (case update (current_state self) verdict of
        (s, c) \<Rightarrow> \<lparr>current_state = s, output_active = drive c (output_active self)\<rparr>)"

text \<open>
  Modelled from the spec: the absent \<^verbatim>\<open>AlertManager.cleanup\<close>, "an explicit cleanup()
  that forces the output to a safe/deactivated state before releasing it".
\<close>

definition alert_cleanup :: "alert_manager \<Rightarrow> alert_manager" where
  "alert_cleanup self = self\<lparr>output_active := False\<rparr>"

section \<open>main.py\<close>

text \<open>
  How a call can raise: \<^verbatim>\<open>KeyboardInterrupt\<close> (not an \<^verbatim>\<open>Exception\<close> in Python) or an
  \<^verbatim>\<open>Exception\<close> with its message.
\<close>

datatype exn = KeyboardInterrupt | Exception string

text \<open>The tuple \<^verbatim>\<open>read_sensors\<close> returns: motion, distance, temperature, humidity.\<close>

type_synonym reading = "bool \<times> real \<times> real option \<times> real option"

text \<open>
  What the surroundings do during one pass of the loop: what \<^verbatim>\<open>read_sensors()\<close> returns or
  raises, the clock readings, and whether the operator's interrupt arrives while the pass
  sleeps. (The interrupt is delivered at the two calls that block, reading and sleeping.)
\<close>

record cycle_env =
  read_sensors :: "exn + reading"
  time_time :: real
  time_strftime :: string
  sleep_interrupted :: bool

text \<open>
  \<^verbatim>\<open>time.sleep(secs)\<close>: Python raises \<^verbatim>\<open>ValueError\<close> on a negative length; otherwise the
  process sleeps, and the interrupt may arrive meanwhile.
\<close>

definition time_sleep :: "cycle_env \<Rightarrow> real \<Rightarrow> event list \<times> exn option" where
  "time_sleep env secs =
     (if secs < 0 then ([], Some (Exception ''sleep length must be non-negative''))
      else if sleep_interrupted env then ([Sleep secs], Some KeyboardInterrupt)
      else ([Sleep secs], None))"

record system =
  alert_manager :: alert_manager
  display_manager :: display_manager
  running :: bool
  cycle_count :: nat

text \<open>The three strings of the diagnostic log, lines 128 to 130.\<close>

definition temp_str :: "real option \<Rightarrow> line" where
  "temp_str temperature = (case temperature of Some t \<Rightarrow> [Float1 t] | None \<Rightarrow> [Str ''N/A''])"

definition hum_str :: "real option \<Rightarrow> line" where
  "hum_str humidity = (case humidity of Some h \<Rightarrow> [Float1 h] | None \<Rightarrow> [Str ''N/A''])"

definition dist_str :: "real \<Rightarrow> line" where
  "dist_str distance = (if distance \<ge> 0 then [Float2 distance] else [Str ''Invalid''])"

definition log_message :: "nat \<Rightarrow> bool \<Rightarrow> real \<Rightarrow> real option \<Rightarrow> real option \<Rightarrow> bool \<Rightarrow> line" where
  "log_message count motion_detected distance temperature humidity intrusion =
     [Str ''[CYCLE '', Nat count, Str ''] '',
      Str ''Motion='', Bool motion_detected, Str '' | '',
      Str ''Distance=''] @ dist_str distance @ [Str ''cm | '',
      Str ''Temp=''] @ temp_str temperature @ [Str [CHR 0xC2, CHR 0xB0], Str ''C | '',
      Str ''Humidity=''] @ hum_str humidity @ [Str ''% | '',
      Str ''Intrusion='', Bool intrusion]"

text \<open>
  The body of the inner \<^verbatim>\<open>try\<close>, lines 103 to 145: the state as the body leaves it, what
  it printed, and the exception it raised, if any. A field assigned before the
  exception stays assigned.
\<close>

definition cycle_body :: "config \<Rightarrow> system \<Rightarrow> cycle_env \<Rightarrow> system \<times> event list \<times> exn option" where
  "cycle_body cfg self env =
     (case read_sensors env of
        Inl e \<Rightarrow> (self, [], Some e)
      | Inr (motion_detected, distance, temperature0, humidity0) \<Rightarrow>
          (let temperature = (if temperature0 = None then Some 0 else temperature0);
               humidity = (if humidity0 = None then Some 0 else humidity0);
               intrusion = check_intrusion motion_detected distance (DISTANCE_THRESHOLD cfg);
               am = update_status (alert_manager self) intrusion;
               (dm, shown) = update_display cfg (display_manager self) (time_time env)
                   (time_strftime env) intrusion motion_detected distance;
               logged = (if cycle_count self mod 10 = 0 then
                           [Print (log_message (cycle_count self) motion_detected distance
                                     temperature humidity intrusion)]
                         else []);
               (slept, raised) = time_sleep env (MAIN_LOOP_DELAY cfg)
           in (self\<lparr>alert_manager := am, display_manager := dm,
                     cycle_count := cycle_count self + 1\<rparr>,
               shown @ logged @ slept, raised)))"

datatype flow = Continue | Break | Propagate exn

text \<open>One pass of the \<^verbatim>\<open>while\<close> loop: the inner \<^verbatim>\<open>try\<close> with its two handlers.\<close>

definition cycle :: "config \<Rightarrow> system \<Rightarrow> cycle_env \<Rightarrow> system \<times> event list \<times> flow" where
  "cycle cfg self env =
     (case cycle_body cfg self env of
        (self', out, None) \<Rightarrow> (self', out, Continue)
      | (self', out, Some KeyboardInterrupt) \<Rightarrow>
          (self'\<lparr>running := False\<rparr>,
           out @ [print_str ''\<newline>\<newline>[SYSTEM] Keyboard interrupt received!''], Break)
      | (self', out, Some (Exception e)) \<Rightarrow>
          (case time_sleep env 1 of
             (slept, raised) \<Rightarrow>
               (self',
                out @ [Print [Str ''[ERROR] Error during monitoring cycle: '', Str e]] @ slept,
                (case raised of None \<Rightarrow> Continue | Some x \<Rightarrow> Propagate x))))"

text \<open>
  How the loop stands after the passes given: still running with no input left
  (\<open>Pending\<close>), left normally, or left by an exception.
\<close>

datatype status = Pending | Returned | Raised exn

fun monitor_loop :: "config \<Rightarrow> system \<Rightarrow> cycle_env list \<Rightarrow> system \<times> event list \<times> status" where
  "monitor_loop cfg self [] = (self, [], if running self then Pending else Returned)"
| "monitor_loop cfg self (env # envs) =
     (if \<not> running self then (self, [], Returned)
      else
        (case cycle cfg self env of
           (self', out, Continue) \<Rightarrow>
             (case monitor_loop cfg self' envs of (s, out', r) \<Rightarrow> (s, out @ out', r))
         | (self', out, Break) \<Rightarrow> (self', out, Returned)
         | (self', out, Propagate e) \<Rightarrow> (self', out, Raised e)))"

definition monitor_restricted_area ::
  "config \<Rightarrow> system \<Rightarrow> cycle_env list \<Rightarrow> system \<times> event list \<times> status" where
  "monitor_restricted_area cfg self envs =
     (let start = [print_str ''\<newline>[SYSTEM] Starting restricted area monitoring...'',
                   print_str ''[SYSTEM] Press Ctrl+C to stop the system\<newline>'']
                  @ show_startup cfg
      in case monitor_loop cfg self envs of
           (self', out, Raised (Exception e)) \<Rightarrow>
             (self',
              start @ out @ [Print [Str ''[ERROR] Fatal error in monitoring loop: '', Str e]]
                @ show_error ''RUNTIME_ERROR'' e,
              Returned)
         | (self', out, r) \<Rightarrow> (self', start @ out, r))"

text \<open>
  What the surroundings do during \<^verbatim>\<open>cleanup\<close>: the first call of its \<^verbatim>\<open>try\<close> block that
  raises, if one does, and what it raises (an exception of a component, or the operator
  pressing Ctrl+C once more). The calls are, in the order of lines 176 to 185,
  \<^verbatim>\<open>show_shutdown\<close>, the \<^verbatim>\<open>cleanup\<close> of the alert manager, of the sensor manager and of
  the display manager, and \<^verbatim>\<open>GPIO.cleanup\<close>.
\<close>

datatype cleanup_step =
  AtShowShutdown | AtAlertCleanup | AtSensorCleanup | AtDisplayCleanup | AtGpioCleanup

type_synonym cleanup_env = "(cleanup_step \<times> exn) option"

text \<open>
  The \<^verbatim>\<open>try\<close> block of \<^verbatim>\<open>cleanup\<close>, lines 171 to 189: the state as the block leaves it,
  its events, and the exception it raised, if any. The attribute \<^verbatim>\<open>cloud_thread\<close> is never
  assigned, so the first test fails. The calls before the one that raises have returned;
  the call that raises leaves no event and no change of state, and the rest of the block
  is skipped.
\<close>

definition cleanup_body ::
  "config \<Rightarrow> cleanup_env \<Rightarrow> system \<Rightarrow> system \<times> event list \<times> exn option" where
  "cleanup_body cfg cenv self =
     (case cenv of
        Some (AtShowShutdown, x) \<Rightarrow> (self, [], Some x)
      | Some (AtAlertCleanup, x) \<Rightarrow> (self, show_shutdown cfg, Some x)
      | Some (AtSensorCleanup, x) \<Rightarrow>
          (self\<lparr>alert_manager := alert_cleanup (alert_manager self)\<rparr>,
           show_shutdown cfg @ [Cleanup Alerts], Some x)
      | Some (AtDisplayCleanup, x) \<Rightarrow>
          (self\<lparr>alert_manager := alert_cleanup (alert_manager self)\<rparr>,
           show_shutdown cfg @ [Cleanup Alerts, Cleanup Sensors], Some x)
      | Some (AtGpioCleanup, x) \<Rightarrow>
          (self\<lparr>alert_manager := alert_cleanup (alert_manager self)\<rparr>,
           show_shutdown cfg @ [Cleanup Alerts, Cleanup Sensors, Cleanup Display]
           @ display_manager_cleanup, Some x)
      | None \<Rightarrow>
          (self\<lparr>alert_manager := alert_cleanup (alert_manager self)\<rparr>,
           show_shutdown cfg
           @ [Cleanup Alerts, Cleanup Sensors, Cleanup Display]
           @ display_manager_cleanup
           @ [GpioCleanup,
              print_str ''[GPIO] GPIO cleaned up successfully'',
              print_str ''\<newline>[SYSTEM] System shutdown complete'',
              print_str (rule70 @ ''\<newline>'')],
           None))"

text \<open>
  \<^verbatim>\<open>cleanup\<close>: the two lines printed before the \<^verbatim>\<open>try\<close>, the block, the handler of
  \<^verbatim>\<open>Exception\<close> (which does not catch \<^verbatim>\<open>KeyboardInterrupt\<close>), and the \<^verbatim>\<open>finally\<close> clause,
  which ends the process by \<^verbatim>\<open>sys.exit(0)\<close> on every path: the third component is the
  exit status.
\<close>

definition cleanup :: "config \<Rightarrow> cleanup_env \<Rightarrow> system \<Rightarrow> system \<times> event list \<times> nat" where
  "cleanup cfg cenv self =
     (let start = [print_str ''\<newline>[SYSTEM] Initiating system shutdown...'',
                   print_str ''[SYSTEM] Cleaning up resources...\<newline>'']
      in case cleanup_body cfg cenv self of
           (self', out, None) \<Rightarrow> (self', start @ out, 0)
         | (self', out, Some (Exception e)) \<Rightarrow>
             (self', start @ out @ [Print [Str ''[ERROR] Error during cleanup: '', Str e]], 0)
         | (self', out, Some KeyboardInterrupt) \<Rightarrow> (self', start @ out, 0))"

text \<open>How the process ends: \<^verbatim>\<open>sys.exit(n)\<close>, or an exception nothing catches.\<close>

datatype process_end = SystemExit nat | Uncaught string

definition exit_status :: "process_end \<Rightarrow> nat" where
  "exit_status t = (case t of SystemExit n \<Rightarrow> n | Uncaught e \<Rightarrow> 1)"

text \<open>
  \<^verbatim>\<open>run\<close>: the process has not ended while the loop is still running; \<open>cenv\<close> is what
  happens during the \<^verbatim>\<open>cleanup\<close> of the \<^verbatim>\<open>finally\<close> clause.
\<close>

definition run ::
  "config \<Rightarrow> cleanup_env \<Rightarrow> system \<Rightarrow> cycle_env list
     \<Rightarrow> system \<times> event list \<times> process_end option" where
  "run cfg cenv self envs =
     (case monitor_restricted_area cfg self envs of
        (self', out, Pending) \<Rightarrow> (self', out, None)
      | (self', out, Returned) \<Rightarrow>
          (case cleanup cfg cenv self' of
             (s, out', n) \<Rightarrow> (s, out @ out', Some (SystemExit n)))
      | (self', out, Raised KeyboardInterrupt) \<Rightarrow>
          (case cleanup cfg cenv self' of
             (s, out', n) \<Rightarrow>
               (s, out @ [print_str ''\<newline>[SYSTEM] System interrupted by user''] @ out',
                Some (SystemExit n)))
      | (self', out, Raised (Exception e)) \<Rightarrow>
          (case cleanup cfg cenv self' of
             (s, out', n) \<Rightarrow>
               (s, out @ [Print [Str ''\<newline>[ERROR] Unexpected error: '', Str e]] @ out',
                Some (SystemExit n))))"

text \<open>
  What can go wrong in \<^verbatim>\<open>__init__\<close>: the constructor of a component raises, or the start
  of the web server does, which comes after the three constructors.
\<close>

datatype init_failure = ConstructorRaises component string | FlaskRaises string

definition banner :: "event list" where
  "banner =
     [print_str (''\<newline>'' @ rule70),
      print_str ''  REAL-TIME INTRUSION DETECTION SYSTEM FOR RASPBERRY PI 4'',
      print_str ''  WITH CLOUD INTEGRATION & WEB DASHBOARD'',
      print_str (rule70 @ ''\<newline>''),
      print_str ''[SYSTEM] GPIO mode already configured\<newline>'',
      print_str ''[SYSTEM] Initializing components...'']"

text \<open>The constructors that have returned when the constructor of \<open>c\<close> raises.\<close>

fun constructed_before :: "component \<Rightarrow> component list" where
  "constructed_before Sensors = []"
| "constructed_before Alerts = [Sensors]"
| "constructed_before Display = [Sensors, Alerts]"

text \<open>
  \<^verbatim>\<open>IntrusionDetectionSystem.__init__\<close>: the object, or how the process ends.
  When a constructor raises, \<^verbatim>\<open>self.display_manager\<close> is not assigned yet, so the
  handler's \<^verbatim>\<open>self.display_manager.show_error\<close> raises \<^verbatim>\<open>AttributeError\<close>, which nothing
  catches. When the start of the web server raises, the handler shows the error and
  calls \<^verbatim>\<open>cleanup\<close>, whose \<^verbatim>\<open>sys.exit(0)\<close> ends the process before line 80 is reached;
  \<^verbatim>\<open>running\<close> and \<^verbatim>\<open>cycle_count\<close> are not assigned then, and \<^verbatim>\<open>cleanup\<close> reads neither.
\<close>

definition IntrusionDetectionSystem ::
  "config \<Rightarrow> init_failure option \<Rightarrow> cleanup_env \<Rightarrow> (process_end + system) \<times> event list" where
  "IntrusionDetectionSystem cfg failure cenv =
     (case failure of
        Some (ConstructorRaises c e) \<Rightarrow>
          (Inl (Uncaught ''AttributeError''),
           banner @ map Construct (constructed_before c)
           @ [Print [Str ''\<newline>[ERROR] System initialization failed: '', Str e]])
      | Some (FlaskRaises e) \<Rightarrow>
          (case DisplayManager False of
             (dm, shown) \<Rightarrow>
               (case cleanup cfg cenv \<lparr>alert_manager = AlertManager, display_manager = dm,
                                       running = False, cycle_count = 0\<rparr> of
                  (s, out, n) \<Rightarrow>
                    (Inl (SystemExit n),
                     banner @ [Construct Sensors, Construct Alerts, Construct Display] @ shown
                     @ [InitializeFlask,
                        Print [Str ''\<newline>[ERROR] System initialization failed: '', Str e]]
                     @ show_error ''INIT_ERROR'' e @ out)))
      | None \<Rightarrow>
          (case DisplayManager False of
             (dm, shown) \<Rightarrow>
               (Inr \<lparr>alert_manager = AlertManager, display_manager = dm,
                     running = True, cycle_count = 0\<rparr>,
                banner @ [Construct Sensors, Construct Alerts, Construct Display] @ shown
                @ [InitializeFlask, StartFlaskThread,
                   print_str ''[SYSTEM] Flask web server started in background'',
                   print_str ''[SYSTEM] Access dashboard at: http://localhost:5000'',
                   print_str ''\<newline>[SYSTEM] All components initialized successfully!'',
                   print_str ''[SYSTEM] Starting monitoring immediately...\<newline>''])))"

text \<open>\<^verbatim>\<open>main\<close>: everything the process printed and did, and how it ended.\<close>

definition main ::
  "config \<Rightarrow> init_failure option \<Rightarrow> cleanup_env \<Rightarrow> cycle_env list
     \<Rightarrow> event list \<times> process_end option" where
  "main cfg failure cenv envs =
     (case IntrusionDetectionSystem cfg failure cenv of
        (Inl t, out) \<Rightarrow> (out, Some t)
      | (Inr system, out) \<Rightarrow>
          (case run cfg cenv system envs of (s, out', t) \<Rightarrow> (out @ out', t)))"

text \<open>The components in the order their constructors returned, and in the order of their
  \<^verbatim>\<open>cleanup\<close> calls.\<close>

fun acquired :: "event list \<Rightarrow> component list" where
  "acquired [] = []"
| "acquired (Construct c # es) = c # acquired es"
| "acquired (e # es) = acquired es"

fun released :: "event list \<Rightarrow> component list" where
  "released [] = []"
| "released (Cleanup c # es) = c # released es"
| "released (e # es) = released es"

text \<open>
  The release events of a trace, in order: the \<^verbatim>\<open>cleanup\<close> calls on the components and
  \<^verbatim>\<open>GPIO.cleanup()\<close>.
\<close>

fun releases :: "event list \<Rightarrow> event list" where
  "releases [] = []"
| "releases (Cleanup c # es) = Cleanup c # releases es"
| "releases (GpioCleanup # es) = GpioCleanup # releases es"
| "releases (e # es) = releases es"


text \<open>
  The verdicts the passes compute, in order: one for each pass whose acquisition
  delivers a reading (lines 114 to 116), none for a pass whose acquisition raises.
\<close>

definition verdicts :: "config \<Rightarrow> cycle_env list \<Rightarrow> bool list" where
  "verdicts cfg envs =
     concat (map (\<lambda>env. case read_sensors env of
                          Inl e \<Rightarrow> []
                        | Inr (motion_detected, distance, temperature, humidity) \<Rightarrow>
                            [check_intrusion motion_detected distance (DISTANCE_THRESHOLD cfg)])
                 envs)"

subsection \<open>Sample inputs\<close>

text \<open>Concrete inputs on which the theorems below are instantiated.\<close>

definition sample_config :: config where
  "sample_config =
     \<lparr>DISTANCE_THRESHOLD = 100, MAIN_LOOP_DELAY = 1 / 2,
      INTRUSION_MESSAGE = ''INTRUSION DETECTED'', SAFE_MESSAGE = ''AREA SAFE'',
      SYSTEM_STARTUP = ''SYSTEM STARTING'', SYSTEM_SHUTDOWN = ''SYSTEM SHUTDOWN''\<rparr>"

text \<open>The object as \<^verbatim>\<open>__init__\<close> leaves it, and the same object while the alert is on.\<close>

definition sample_system :: system where
  "sample_system =
     \<lparr>alert_manager = \<lparr>current_state = SAFE, output_active = False\<rparr>,
      display_manager =
        \<lparr>lcd = \<lparr>enable_framebuffer = False, current_message = [], last_update_time = 0,
                display_update_interval = 1\<rparr>,
         display_count = 0\<rparr>,
      running = True, cycle_count = 0\<rparr>"

definition alerting_system :: system where
  "alerting_system =
     sample_system\<lparr>alert_manager := \<lparr>current_state = ALERT, output_active = True\<rparr>,
                   cycle_count := 7\<rparr>"

text \<open>
  Passes: an intruder at 50 cm, nobody at 150 cm, a reading without temperature and
  humidity, a reading of exactly 0 cm, a failed acquisition, and the operator's interrupt.
\<close>

definition env_intruder :: cycle_env where
  "env_intruder =
     \<lparr>read_sensors = Inr (True, 50, Some 21, Some 40), time_time = 10,
      time_strftime = ''2024-01-01 00:00:10'', sleep_interrupted = False\<rparr>"

definition env_clear :: cycle_env where
  "env_clear =
     \<lparr>read_sensors = Inr (True, 150, Some 21, Some 40), time_time = 12,
      time_strftime = ''2024-01-01 00:00:12'', sleep_interrupted = False\<rparr>"

definition env_no_dht :: cycle_env where
  "env_no_dht =
     \<lparr>read_sensors = Inr (True, 50, None, None), time_time = 10,
      time_strftime = ''2024-01-01 00:00:10'', sleep_interrupted = False\<rparr>"

definition env_zero :: cycle_env where
  "env_zero =
     \<lparr>read_sensors = Inr (True, 0, Some 21, Some 40), time_time = 10,
      time_strftime = ''2024-01-01 00:00:10'', sleep_interrupted = False\<rparr>"

definition env_failure :: cycle_env where
  "env_failure =
     \<lparr>read_sensors = Inl (Exception ''sensor timeout''), time_time = 11,
      time_strftime = ''2024-01-01 00:00:11'', sleep_interrupted = False\<rparr>"

definition env_interrupt :: cycle_env where
  "env_interrupt =
     \<lparr>read_sensors = Inl KeyboardInterrupt, time_time = 13,
      time_strftime = ''2024-01-01 00:00:13'', sleep_interrupted = False\<rparr>"

definition env_pause_interrupted :: cycle_env where
  "env_pause_interrupted =
     \<lparr>read_sensors = Inl (Exception ''sensor timeout''), time_time = 11,
      time_strftime = ''2024-01-01 00:00:11'', sleep_interrupted = True\<rparr>"

text \<open>The display after a first message was committed at time 5.\<close>

definition lcd_at_5 :: lcd_display where
  "lcd_at_5 =
     \<lparr>enable_framebuffer = False, current_message = ''AREA SAFE'', last_update_time = 5,
      display_update_interval = 1\<rparr>"

section \<open>Auxiliary facts\<close>

lemmas sample_defs = sample_config_def sample_system_def alerting_system_def env_intruder_def
  env_clear_def env_no_dht_def env_zero_def env_failure_def env_interrupt_def
  env_pause_interrupted_def lcd_at_5_def

lemmas display_defs = update_display_def show_intrusion_alert_def show_area_safe_def
  display_message_def data_lines_def truthy_def motion_lines_def distance_lines_def
  timestamp_lines_def clear_screen_def print_str_def

subsection \<open>One pass of the loop\<close>

lemma cycle_body_failure:
  "read_sensors env = Inl e \<Longrightarrow> cycle_body cfg self env = (self, [], Some e)"
  by (simp add: cycle_body_def)

lemma cycle_body_reading:
  "read_sensors env = Inr (m, d, t, h) \<Longrightarrow>
   cycle_body cfg self env =
     (self\<lparr>alert_manager :=
             update_status (alert_manager self) (check_intrusion m d (DISTANCE_THRESHOLD cfg)),
           display_manager :=
             fst (update_display cfg (display_manager self) (time_time env) (time_strftime env)
                    (check_intrusion m d (DISTANCE_THRESHOLD cfg)) m d),
           cycle_count := cycle_count self + 1\<rparr>,
      snd (update_display cfg (display_manager self) (time_time env) (time_strftime env)
             (check_intrusion m d (DISTANCE_THRESHOLD cfg)) m d)
      @ (if cycle_count self mod 10 = 0 then
           [Print (log_message (cycle_count self) m d (if t = None then Some 0 else t)
                     (if h = None then Some 0 else h)
                     (check_intrusion m d (DISTANCE_THRESHOLD cfg)))]
         else [])
      @ fst (time_sleep env (MAIN_LOOP_DELAY cfg)),
      snd (time_sleep env (MAIN_LOOP_DELAY cfg)))"
  by (simp add: cycle_body_def Let_def split: prod.splits)

lemma update_status_state:
  "current_state (update_status am v) = fst (update (current_state am) v)"
  by (simp add: update_status_def split: prod.splits)

lemma cycle_alert_manager:
  "read_sensors env = Inr (m, d, t, h) \<Longrightarrow>
   alert_manager (fst (cycle cfg self env)) =
     update_status (alert_manager self) (check_intrusion m d (DISTANCE_THRESHOLD cfg))"
  by (simp add: cycle_def cycle_body_reading time_sleep_def
      split: prod.splits option.splits exn.splits)

lemma cycle_alert_manager_failure:
  "read_sensors env = Inl e \<Longrightarrow> alert_manager (fst (cycle cfg self env)) = alert_manager self"
  by (simp add: cycle_def cycle_body_failure time_sleep_def
      split: prod.splits option.splits exn.splits)

lemma cycle_continue_running:
  "cycle cfg self env = (s, out, Continue) \<Longrightarrow> running s = running self"
  by (cases "read_sensors env")
     (auto simp add: cycle_def cycle_body_reading cycle_body_failure time_sleep_def
        split: prod.splits option.splits exn.splits if_splits)

lemma cycle_flow:
  "\<not> sleep_interrupted env \<Longrightarrow> read_sensors env \<noteq> Inl KeyboardInterrupt \<Longrightarrow>
   snd (snd (cycle cfg self env)) = Continue"
  by (cases "read_sensors env")
     (auto simp add: cycle_def cycle_body_reading cycle_body_failure time_sleep_def
        split: prod.splits option.splits exn.splits if_splits)

subsection \<open>The alert state along the loop\<close>

lemma foldl_update_status:
  "current_state (foldl update_status am vs)
     = foldl (\<lambda>s v. fst (update s v)) (current_state am) vs"
  by (induction vs arbitrary: am) (simp_all add: update_status_state)

lemma monitor_loop_state:
  "running self \<Longrightarrow>
   \<forall>env \<in> set envs. \<not> sleep_interrupted env \<and> read_sensors env \<noteq> Inl KeyboardInterrupt \<Longrightarrow>
   current_state (alert_manager (fst (monitor_loop cfg self envs))) =
     foldl (\<lambda>s v. fst (update s v)) (current_state (alert_manager self)) (verdicts cfg envs)"
proof (induction envs arbitrary: self)
  case Nil
  then show ?case by (simp add: verdicts_def)
next
  case (Cons env envs)
  obtain s out where c: "cycle cfg self env = (s, out, Continue)"
    using cycle_flow[of env cfg self] Cons.prems(2) by (cases "cycle cfg self env") auto
  have r: "running s"
    using cycle_continue_running[OF c] Cons.prems(1) by simp
  have ih: "current_state (alert_manager (fst (monitor_loop cfg s envs))) =
      foldl (\<lambda>s v. fst (update s v)) (current_state (alert_manager s)) (verdicts cfg envs)"
    using Cons.IH[OF r] Cons.prems(2) by simp
  have step: "current_state (alert_manager s) =
      foldl (\<lambda>s v. fst (update s v)) (current_state (alert_manager self)) (verdicts cfg [env])"
  proof (cases "read_sensors env")
    case (Inl e)
    then show ?thesis
      using cycle_alert_manager_failure[OF Inl, of cfg self] c by (simp add: verdicts_def)
  next
    case (Inr r)
    obtain m d t h where "r = (m, d, t, h)" by (cases r) auto
    with Inr have rd: "read_sensors env = Inr (m, d, t, h)" by simp
    show ?thesis
      using cycle_alert_manager[OF rd, of cfg self] c rd
      by (simp add: verdicts_def update_status_state)
  qed
  have v: "verdicts cfg (env # envs) = verdicts cfg [env] @ verdicts cfg envs"
    by (simp add: verdicts_def)
  have fs: "fst (monitor_loop cfg self (env # envs)) = fst (monitor_loop cfg s envs)"
    using Cons.prems(1) c by (simp split: prod.splits)
  show ?case unfolding fs v using ih step by simp
qed

subsection \<open>Nothing is released before the shutdown\<close>

lemma releases_append [simp]: "releases (xs @ ys) = releases xs @ releases ys"
  by (induction xs rule: releases.induct) simp_all








lemma cleanup_releases:
  "releases (fst (snd (cleanup cfg None self)))
     = [Cleanup Alerts, Cleanup Sensors, Cleanup Display, GpioCleanup]"
  by (simp add: cleanup_def cleanup_body_def Let_def show_shutdown_def show_shutdown_message_def
      clear_screen_def print_str_def display_manager_cleanup_def lcd_cleanup_def)

lemma cleanup_exit_status: "snd (snd (cleanup cfg cenv self)) = 0"
  by (simp add: cleanup_def Let_def split: prod.splits option.splits exn.splits)


lemma init_releases:
  "releases (snd (IntrusionDetectionSystem cfg None cenv)) = []"
  "releases (snd (IntrusionDetectionSystem cfg (Some (FlaskRaises e)) cenv))
     = releases (fst (snd (cleanup cfg cenv
         \<lparr>alert_manager = AlertManager, display_manager = fst (DisplayManager False),
          running = False, cycle_count = 0\<rparr>)))"
  by (simp_all add: IntrusionDetectionSystem_def DisplayManager_def LCDDisplay_def banner_def
      show_error_def show_error_message_def clear_screen_def print_str_def
      split: prod.splits)

lemma rule50_not_invalid: "rule50 \<noteq> ''Distance: No valid reading''"
proof
  assume "rule50 = ''Distance: No valid reading''"
  then have "length rule50 = length ''Distance: No valid reading''" by simp
  then show False by (simp add: rule50_def)
qed

section \<open>The intrusion verdict\<close>

text \<open>
  Claim C1. The verdict of a pass is true exactly when the motion flag is true, the
  distance is valid and the distance is strictly below the threshold; an invalid
  distance gives false. The pass hands this verdict to the alert manager, and computing
  it raises nothing: when a reading was delivered, the only exception the body of the
  pass can raise is the one of its closing \<^verbatim>\<open>time.sleep\<close>.
\<close>

theorem intrusion_verdict:
  "check_intrusion motion_detected distance t
     = (motion_detected \<and> distance_valid distance \<and> distance < t)
   \<and> (\<not> distance_valid distance \<longrightarrow> \<not> check_intrusion motion_detected distance t)
   \<and> (read_sensors env = Inr (motion_detected, distance, temperature, humidity) \<longrightarrow>
        alert_manager (fst (cycle cfg self env))
          = update_status (alert_manager self)
              (motion_detected \<and> distance_valid distance \<and> distance < DISTANCE_THRESHOLD cfg)
        \<and> snd (snd (cycle_body cfg self env)) = snd (time_sleep env (MAIN_LOOP_DELAY cfg)))"
  using cycle_alert_manager[of env motion_detected distance temperature humidity cfg self]
    cycle_body_reading[of env motion_detected distance temperature humidity cfg self]
  by (auto simp add: check_intrusion_def)

theorem intrusion_verdict_witness:
  "check_intrusion True 50 100 \<and> \<not> check_intrusion True 150 100
   \<and> \<not> check_intrusion False 10 100 \<and> \<not> check_intrusion True (- 1) 100
   \<and> alert_manager (fst (cycle sample_config sample_system env_intruder))
       = \<lparr>current_state = ALERT, output_active = True\<rparr>
   \<and> snd (snd (cycle_body sample_config sample_system env_intruder)) = None"
  using intrusion_verdict[where motion_detected = True and distance = 50 and t = 100
      and env = env_intruder and cfg = sample_config and self = sample_system
      and temperature = "Some 21" and humidity = "Some 40"]
    intrusion_verdict[where motion_detected = True and distance = 150 and t = 100]
    intrusion_verdict[where motion_detected = False and distance = 10 and t = 100]
    intrusion_verdict[where motion_detected = True and distance = "- 1" and t = 100]
  by (simp add: sample_defs distance_valid_def update_status_def time_sleep_def)

section \<open>The alert state machine\<close>

text \<open>
  Claim C2. \<open>update\<close> is a function of the current state and the verdict with the four
  rows of the table, and \<open>update_status\<close> moves the manager's state by it. Applying
  \<open>update_status\<close> to a sequence of verdicts, starting from the initial manager, reaches
  the state that folding the table from \<open>SAFE\<close> reaches. The loop does the same: as long
  as the operator does not interrupt, its alert state after any number of passes is the
  fold of the table over the verdicts of the passes that delivered a reading.
\<close>

theorem update_follows_table:
  "update SAFE True = (ALERT, Activate) \<and> update ALERT True = (ALERT, Reassert)
   \<and> update ALERT False = (SAFE, Deactivate) \<and> update SAFE False = (SAFE, NoCommand)
   \<and> current_state (update_status am verdict) = fst (update (current_state am) verdict)
   \<and> current_state (foldl update_status AlertManager vs)
       = foldl (\<lambda>s v. fst (update s v)) SAFE vs
   \<and> (running self
        \<and> (\<forall>env \<in> set envs.
              \<not> sleep_interrupted env \<and> read_sensors env \<noteq> Inl KeyboardInterrupt) \<longrightarrow>
        current_state (alert_manager (fst (monitor_loop cfg self envs)))
          = foldl (\<lambda>s v. fst (update s v)) (current_state (alert_manager self))
              (verdicts cfg envs))"
  using monitor_loop_state[of self envs cfg] foldl_update_status[of AlertManager vs]
  by (simp add: update_status_state AlertManager_def)

theorem update_follows_table_witness:
  "running sample_system
   \<and> verdicts sample_config [env_intruder, env_failure, env_intruder, env_clear]
       = [True, True, False]
   \<and> current_state (alert_manager (fst (monitor_loop sample_config sample_system
         [env_intruder, env_failure, env_intruder]))) = ALERT
   \<and> current_state (alert_manager (fst (monitor_loop sample_config sample_system
         [env_intruder, env_failure, env_intruder, env_clear]))) = SAFE
   \<and> current_state (foldl update_status AlertManager [True, True, False, False, True]) = ALERT"
  using update_follows_table[where self = sample_system and cfg = sample_config
      and envs = "[env_intruder, env_failure, env_intruder]"
      and vs = "[True, True, False, False, True]"]
    update_follows_table[where self = sample_system and cfg = sample_config
      and envs = "[env_intruder, env_failure, env_intruder, env_clear]"]
  by (simp add: sample_defs verdicts_def check_intrusion_def distance_valid_def)

section \<open>A failed acquisition\<close>

text \<open>
  Claim C3. When \<^verbatim>\<open>read_sensors\<close> raises an exception, the pass changes nothing: the
  object is returned as it was (alert manager, display manager and cycle counter
  included), so no verdict was computed and no update made; the pass prints the error
  and pauses for one second. Unless the operator interrupts that pause, the loop goes
  on with the next pass from the unchanged state.
\<close>

theorem acquisition_failure_aborts_cycle:
  "read_sensors env = Inl (Exception e) \<longrightarrow>
     cycle cfg self env =
       (self, [Print [Str ''[ERROR] Error during monitoring cycle: '', Str e], Sleep 1],
        if sleep_interrupted env then Propagate KeyboardInterrupt else Continue)
     \<and> (running self \<and> \<not> sleep_interrupted env \<longrightarrow>
          monitor_loop cfg self (env # envs) =
            (case monitor_loop cfg self envs of
               (s, out, r) \<Rightarrow>
                 (s,
                  [Print [Str ''[ERROR] Error during monitoring cycle: '', Str e], Sleep 1] @ out,
                  r)))"
  by (simp add: cycle_def cycle_body_failure time_sleep_def)

theorem acquisition_failure_aborts_cycle_witness:
  "read_sensors env_failure = Inl (Exception ''sensor timeout'')
   \<and> running alerting_system \<and> \<not> sleep_interrupted env_failure
   \<and> cycle sample_config alerting_system env_failure =
       (alerting_system,
        [Print [Str ''[ERROR] Error during monitoring cycle: '', Str ''sensor timeout''], Sleep 1],
        Continue)
   \<and> monitor_loop sample_config alerting_system [env_failure, env_interrupt] =
       (alerting_system\<lparr>running := False\<rparr>,
        [Print [Str ''[ERROR] Error during monitoring cycle: '', Str ''sensor timeout''], Sleep 1,
         Print [Str ''\<newline>\<newline>[SYSTEM] Keyboard interrupt received!'']],
        Returned)"
  using acquisition_failure_aborts_cycle[where env = env_failure and e = "''sensor timeout''"
      and cfg = sample_config and self = alerting_system and envs = "[env_interrupt]"]
  by (simp add: sample_defs cycle_def cycle_body_def print_str_def)

section \<open>Shutdown\<close>




text \<open>
  Claim C5. The claim asks for a non-zero exit status when initialisation fails. The
  code does not deliver it. When the start of the web server raises, the handler of
  \<^verbatim>\<open>__init__\<close> shows the error and calls \<^verbatim>\<open>cleanup\<close>, whose \<^verbatim>\<open>finally\<close> clause calls
  \<^verbatim>\<open>sys.exit(0)\<close>: the process ends with status 0, whatever happens during \<^verbatim>\<open>cleanup\<close>,
  and the \<^verbatim>\<open>sys.exit(1)\<close> of line 80 is never reached. When a constructor raises,
  \<^verbatim>\<open>self.display_manager\<close> does not exist yet: the handler itself raises
  \<^verbatim>\<open>AttributeError\<close> and the process ends with no component released.
\<close>

theorem init_failure_exits_zero:
  "snd (main cfg (Some (FlaskRaises e)) cenv envs) = Some (SystemExit 0)
   \<and> exit_status (SystemExit 0) = 0
   \<and> releases (fst (main cfg (Some (FlaskRaises e)) None envs))
       = [Cleanup Alerts, Cleanup Sensors, Cleanup Display, GpioCleanup]
   \<and> snd (main cfg (Some (ConstructorRaises c e)) cenv envs) = Some (Uncaught ''AttributeError'')
   \<and> releases (fst (main cfg (Some (ConstructorRaises c e)) cenv envs)) = []"
proof -
  have status: "snd (main cfg (Some (FlaskRaises e)) cenv envs) = Some (SystemExit 0)"
    using cleanup_exit_status[of cfg cenv]
    by (simp add: main_def IntrusionDetectionSystem_def case_prod_unfold)
  have rel: "releases (fst (main cfg (Some (FlaskRaises e)) None envs))
       = [Cleanup Alerts, Cleanup Sensors, Cleanup Display, GpioCleanup]"
    using init_releases(2)[of cfg e None] cleanup_releases[of cfg]
    by (simp add: main_def IntrusionDetectionSystem_def case_prod_unfold)
  have ctor: "snd (main cfg (Some (ConstructorRaises c e)) cenv envs)
        = Some (Uncaught ''AttributeError'')
      \<and> releases (fst (main cfg (Some (ConstructorRaises c e)) cenv envs)) = []"
    by (cases c)
       (simp_all add: main_def IntrusionDetectionSystem_def banner_def print_str_def)
  show ?thesis
    using status rel ctor by (simp add: exit_status_def)
qed

text \<open>
  Claim C6. The claim asks for the release of the components in the reverse of the
  order of their acquisition, and so does the comment of line 178. The code acquires
  sensors, alerts, display and, when every call of \<^verbatim>\<open>cleanup\<close> returns, releases alerts,
  sensors, display, which is not the reverse order.
\<close>

theorem cleanup_order_not_reversed:
  "acquired (snd (IntrusionDetectionSystem cfg None cenv)) = [Sensors, Alerts, Display]
   \<and> released (fst (snd (cleanup cfg None self))) = [Alerts, Sensors, Display]
   \<and> released (fst (snd (cleanup cfg None self)))
       \<noteq> rev (acquired (snd (IntrusionDetectionSystem cfg None cenv)))"
  by (simp add: IntrusionDetectionSystem_def cleanup_def cleanup_body_def Let_def
      DisplayManager_def LCDDisplay_def banner_def show_shutdown_def show_shutdown_message_def
      clear_screen_def print_str_def display_manager_cleanup_def lcd_cleanup_def)

section \<open>A reading without temperature or humidity\<close>



section \<open>The display\<close>

text \<open>
  Claim C8. A call of \<^verbatim>\<open>display_message\<close> made less than \<open>display_update_interval\<close> after
  \<open>last_update_time\<close> renders nothing and leaves the object as it was, \<open>current_message\<close>
  and \<open>last_update_time\<close> included. A call that renders anything or changes the object
  comes at or after the interval, and such a call does render and sets these two fields,
  and nothing else, to the message and to the time of the call. The interval of a new
  display is one second.
\<close>

theorem display_message_throttled:
  "(current_time - last_update_time self < display_update_interval self \<longrightarrow>
      display_message self current_time message data = (self, []))
   \<and> (display_message self current_time message data \<noteq> (self, []) \<longrightarrow>
      current_time - last_update_time self \<ge> display_update_interval self)
   \<and> (current_time - last_update_time self \<ge> display_update_interval self \<longrightarrow>
      snd (display_message self current_time message data) \<noteq> []
      \<and> fst (display_message self current_time message data)
          = self\<lparr>current_message := message, last_update_time := current_time\<rparr>)
   \<and> display_update_interval (fst (LCDDisplay fb)) = 1"
  by (simp add: display_message_def LCDDisplay_def clear_screen_def)

theorem display_message_throttled_witness:
  "fst (display_message (fst (LCDDisplay False)) 5 ''AREA SAFE'' None) = lcd_at_5
   \<and> 5.5 - last_update_time lcd_at_5 < display_update_interval lcd_at_5
   \<and> display_message lcd_at_5 5.5 ''INTRUSION DETECTED'' None = (lcd_at_5, [])
   \<and> 6 - last_update_time lcd_at_5 \<ge> display_update_interval lcd_at_5
   \<and> fst (display_message lcd_at_5 6 ''INTRUSION DETECTED'' None)
       = lcd_at_5\<lparr>current_message := ''INTRUSION DETECTED'', last_update_time := 6\<rparr>
   \<and> snd (display_message lcd_at_5 6 ''INTRUSION DETECTED'' None) \<noteq> []"
  using display_message_throttled[where self = lcd_at_5 and current_time = "5.5"
      and message = "''INTRUSION DETECTED''" and data = None]
    display_message_throttled[where self = lcd_at_5 and current_time = 6
      and message = "''INTRUSION DETECTED''" and data = None]
    display_message_throttled[where self = "fst (LCDDisplay False)" and current_time = 5
      and message = "''AREA SAFE''" and data = None]
  by (simp add: lcd_at_5_def LCDDisplay_def)

text \<open>
  Claim C9. \<^verbatim>\<open>update_display\<close> calls \<^verbatim>\<open>display_message\<close> with a dictionary whose motion
  flag is \<open>intrusion_detected\<close>; its own \<open>motion\<close> argument changes neither the result nor
  the output. When something is rendered, the line "Motion Detection: DETECTED" is among
  the output exactly when \<open>intrusion_detected\<close> holds, and the line "Motion Detection:
  CLEAR" exactly when it does not.
\<close>

theorem update_display_motion_flag:
  "update_display cfg self current_time timestamp intrusion_detected motion distance =
     (case display_message (lcd self) current_time
             (if intrusion_detected then INTRUSION_MESSAGE cfg else SAFE_MESSAGE cfg)
             (Some \<lparr>data_motion = Some intrusion_detected, data_distance = Some distance,
                    data_timestamp = Some timestamp\<rparr>) of
        (l, out) \<Rightarrow> (self\<lparr>lcd := l, display_count := display_count self + 1\<rparr>, out))
   \<and> update_display cfg self current_time timestamp intrusion_detected motion distance =
      update_display cfg self current_time timestamp intrusion_detected (\<not> motion) distance
   \<and> (snd (update_display cfg self current_time timestamp intrusion_detected motion distance) = []
      \<or> (Print [Str ''Motion Detection: '', Str ''DETECTED'']
            \<in> set (snd (update_display cfg self current_time timestamp intrusion_detected
                           motion distance)))
          = intrusion_detected
        \<and> (Print [Str ''Motion Detection: '', Str ''CLEAR'']
            \<in> set (snd (update_display cfg self current_time timestamp intrusion_detected
                           motion distance)))
          = (\<not> intrusion_detected))"
  by (simp add: display_defs)

theorem update_display_motion_flag_witness:
  "Print [Str ''Motion Detection: '', Str ''CLEAR'']
     \<in> set (snd (update_display sample_config (display_manager sample_system) 10
                    ''2024-01-01 00:00:10'' False True 150))
   \<and> Print [Str ''Motion Detection: '', Str ''DETECTED'']
     \<notin> set (snd (update_display sample_config (display_manager sample_system) 10
                    ''2024-01-01 00:00:10'' False True 150))
   \<and> update_display sample_config (display_manager sample_system) 10
        ''2024-01-01 00:00:10'' False True 150
      = update_display sample_config (display_manager sample_system) 10
          ''2024-01-01 00:00:10'' False False 150"
  using update_display_motion_flag[where cfg = sample_config
      and self = "display_manager sample_system" and current_time = 10
      and timestamp = "''2024-01-01 00:00:10''" and intrusion_detected = False
      and motion = True and distance = 150]
  by (simp add: sample_defs display_defs)

text \<open>
  Claim C10. When \<^verbatim>\<open>display_message\<close> renders a dictionary that holds a distance, the
  numeric line "Distance: ... cm" is printed exactly when the distance is greater than 0,
  and "Distance: No valid reading" exactly when it is not. So a distance of exactly 0 is
  displayed as no valid reading, while the diagnostic log of the loop, which tests
  \<^verbatim>\<open>distance >= 0\<close>, prints it as the number 0.00.
\<close>

theorem zero_distance_displayed_invalid:
  "current_time - last_update_time self \<ge> display_update_interval self
   \<and> data_distance d = Some distance \<longrightarrow>
     (Print [Str ''Distance: '', Float2 distance, Str '' cm'']
        \<in> set (snd (display_message self current_time message (Some d)))) = (distance > 0)
     \<and> (Print [Str ''Distance: No valid reading'']
        \<in> set (snd (display_message self current_time message (Some d)))) = (\<not> distance > 0)
     \<and> (distance = 0 \<longrightarrow>
          Print [Str ''Distance: No valid reading'']
            \<in> set (snd (display_message self current_time message (Some d)))
          \<and> dist_str distance = [Float2 0])"
  using rule50_not_invalid
  by (auto simp add: display_message_def data_lines_def truthy_def motion_lines_def
      distance_lines_def timestamp_lines_def clear_screen_def print_str_def dist_str_def
      split: option.splits)

theorem zero_distance_displayed_invalid_witness:
  "10 - last_update_time (lcd (display_manager sample_system))
     \<ge> display_update_interval (lcd (display_manager sample_system))
   \<and> Print [Str ''Distance: No valid reading'']
       \<in> set (snd (update_display sample_config (display_manager sample_system) 10
                      ''2024-01-01 00:00:10'' False True 0))
   \<and> Print [Str ''Distance: '', Float2 0, Str '' cm'']
       \<notin> set (snd (update_display sample_config (display_manager sample_system) 10
                      ''2024-01-01 00:00:10'' False True 0))
   \<and> dist_str 0 = [Float2 0]
   \<and> Print [Str ''Distance: '', Float2 50, Str '' cm'']
       \<in> set (snd (update_display sample_config (display_manager sample_system) 10
                      ''2024-01-01 00:00:10'' False True 50))"
  using zero_distance_displayed_invalid[where self = "lcd (display_manager sample_system)"
      and current_time = 10 and message = "''AREA SAFE''" and distance = 0
      and d = "\<lparr>data_motion = Some False, data_distance = Some 0,
                  data_timestamp = Some ''2024-01-01 00:00:10''\<rparr>"]
    zero_distance_displayed_invalid[where self = "lcd (display_manager sample_system)"
      and current_time = 10 and message = "''AREA SAFE''" and distance = 50
      and d = "\<lparr>data_motion = Some False, data_distance = Some 50,
                  data_timestamp = Some ''2024-01-01 00:00:10''\<rparr>"]
  by (simp add: sample_defs update_display_def show_area_safe_def case_prod_unfold)

end
